theory Spec2Isabelle
  imports Complex_Main "HOL-Library.AList" "HOL-Library.Multiset"
begin

section \<open>Interface candidates (tools/build/interface.py)\<close>

text \<open>
  A pymatgen \<open>Interface\<close> is seen through the three attributes the holder reads:
  \<open>num_sites\<close>, \<open>interface_properties["termination"]\<close> and
  \<open>interface_properties[StrainModes.mean_abs_strain]\<close> (the default strain mode, a
  scalar). Everything else of the object lives in the record's extension, so two
  candidates that agree on the three attributes can still be different objects.
  Strain values are exact rationals, and every finite float is one. The comparison
  \<open>allclose\<close> below is computed exactly; the general theorems about the duplicate
  filter use no property of it, so they hold for the rounded comparison as well.
\<close>

type_synonym TerminationType = "string \<times> string"

record Interface =
  num_sites :: nat
  interface_termination :: TerminationType
  mean_abs_strain :: rat

datatype error = IndexError | KeyError | TypeError

text \<open>
  The holder's \<open>data\<close> is a Python dict: insertion ordered, a store to a present key
  keeps its position, a store to a new key appends. That is \<open>AList.update\<close> on an
  association list, read by \<open>map_of\<close>.
\<close>

record 'i InterfaceDataHolder =
  data :: "(TerminationType \<times> 'i list) list"
  terminations :: "TerminationType list"

text \<open>The argument \<open>Union[int, TerminationType]\<close> of the query methods.\<close>

datatype termination_or_its_index = Index int | Termination TerminationType

definition set_interfaces_for_termination ::
  "'i InterfaceDataHolder \<Rightarrow> TerminationType \<Rightarrow> 'i list \<Rightarrow> 'i InterfaceDataHolder" where
  "set_interfaces_for_termination h t interfaces = h\<lparr>data := AList.update t interfaces (data h)\<rparr>"

definition add_termination ::
  "'i InterfaceDataHolder \<Rightarrow> TerminationType \<Rightarrow> 'i InterfaceDataHolder" where
  "add_termination h t =
     (if t \<notin> set (terminations h)
      then set_interfaces_for_termination (h\<lparr>terminations := terminations h @ [t]\<rparr>) t []
      else h)"

text \<open>
  \<open>self.terminations[termination]\<close> is Python list indexing: a negative index counts
  from the end, anything else out of range raises IndexError.
\<close>

definition get_termination ::
  "'i InterfaceDataHolder \<Rightarrow> termination_or_its_index \<Rightarrow> error + TerminationType" where
  "get_termination h termination =
     (case termination of
        Index i \<Rightarrow>
          (let n = int (length (terminations h)); j = (if i < 0 then n + i else i)
           in if 0 \<le> j \<and> j < n then Inr (terminations h ! nat j) else Inl IndexError)
      | Termination k \<Rightarrow> Inr k)"

definition get_interfaces_for_termination_or_its_index ::
  "'i InterfaceDataHolder \<Rightarrow> termination_or_its_index \<Rightarrow> error + 'i list" where
  "get_interfaces_for_termination_or_its_index h termination_or_its_index =
     (case get_termination h termination_or_its_index of
        Inl e \<Rightarrow> Inl e
      | Inr termination \<Rightarrow>
          (case map_of (data h) termination of
             None \<Rightarrow> Inl KeyError
           | Some interfaces \<Rightarrow> Inr interfaces))"

text \<open>
  The method assigns nothing to \<open>self\<close>; as a call on the holder's state it returns
  its result together with the state it received.
\<close>

definition get_interfaces_for_termination_or_its_index_call ::
  "'i InterfaceDataHolder \<Rightarrow> termination_or_its_index \<Rightarrow> (error + 'i list) \<times> 'i InterfaceDataHolder" where
  "get_interfaces_for_termination_or_its_index_call h termination_or_its_index =
     (get_interfaces_for_termination_or_its_index h termination_or_its_index, h)"

text \<open>
  \<open>array_utils.filter_by_slice_or_index_or_indices\<close> belongs to the external package
  \<open>mat3ra.utils\<close>. A selector (an index, a slice, a list of indices) is represented by
  the selection it performs on a list, which may raise; the default \<open>None\<close> selects
  the whole list.
\<close>

type_synonym 'i selector = "('i list \<Rightarrow> error + 'i list) option"

definition filter_by_slice_or_index_or_indices :: "'i list \<Rightarrow> 'i selector \<Rightarrow> error + 'i list" where
  "filter_by_slice_or_index_or_indices array slice_or_index_or_indices =
     (case slice_or_index_or_indices of None \<Rightarrow> Inr array | Some select \<Rightarrow> select array)"

definition get_interfaces_for_termination ::
  "'i InterfaceDataHolder \<Rightarrow> termination_or_its_index \<Rightarrow> 'i selector \<Rightarrow> error + 'i list" where
  "get_interfaces_for_termination h termination_or_its_index slice_or_index_or_indices =
     (case get_interfaces_for_termination_or_its_index h termination_or_its_index of
        Inl e \<Rightarrow> Inl e
      | Inr interfaces \<Rightarrow> filter_by_slice_or_index_or_indices interfaces slice_or_index_or_indices)"

definition add_interfaces_for_termination ::
  "'i InterfaceDataHolder \<Rightarrow> TerminationType \<Rightarrow> 'i list \<Rightarrow> error + 'i InterfaceDataHolder" where
  "add_interfaces_for_termination h t interfaces =
     (let h1 = add_termination h t
      in case get_interfaces_for_termination h1 (Termination t) None of
           Inl e \<Rightarrow> Inl e
         | Inr old \<Rightarrow> Inr (set_interfaces_for_termination h1 t (old @ interfaces)))"

subsection \<open>Sorting\<close>

text \<open>
  Python's \<open>sorted(xs, key=k)\<close> is a stable sort; so is \<open>sort_key\<close>. The strain key is
  \<open>np.mean(np.abs(v))\<close>, for a scalar \<open>v\<close> its absolute value.
\<close>

definition strain_key :: "'a Interface_scheme \<Rightarrow> rat" where
  "strain_key x = \<bar>mean_abs_strain x\<bar>"

definition get_interfaces_for_termination_sorted_by_strain ::
  "'a Interface_scheme InterfaceDataHolder \<Rightarrow> termination_or_its_index
     \<Rightarrow> error + 'a Interface_scheme list" where
  "get_interfaces_for_termination_sorted_by_strain h termination =
     (case get_interfaces_for_termination h termination None of
        Inl e \<Rightarrow> Inl e
      | Inr interfaces \<Rightarrow> Inr (sort_key strain_key interfaces))"

definition get_interfaces_for_termination_sorted_by_size ::
  "'a Interface_scheme InterfaceDataHolder \<Rightarrow> termination_or_its_index
     \<Rightarrow> error + 'a Interface_scheme list" where
  "get_interfaces_for_termination_sorted_by_size h termination =
     (case get_interfaces_for_termination h termination None of
        Inl e \<Rightarrow> Inl e
      | Inr interfaces \<Rightarrow> Inr (sort_key num_sites interfaces))"

definition get_interfaces_for_termination_sorted_by_strain_and_size ::
  "'a Interface_scheme InterfaceDataHolder \<Rightarrow> termination_or_its_index
     \<Rightarrow> error + 'a Interface_scheme list" where
  "get_interfaces_for_termination_sorted_by_strain_and_size h termination =
     (case get_interfaces_for_termination_sorted_by_strain h termination of
        Inl e \<Rightarrow> Inl e
      | Inr interfaces \<Rightarrow> Inr (sort_key num_sites interfaces))"

text \<open>The loop \<open>for termination in self.terminations\<close>, the holder threaded through.\<close>

fun sort_interfaces_loop ::
  "TerminationType list \<Rightarrow> 'a Interface_scheme InterfaceDataHolder
     \<Rightarrow> error + 'a Interface_scheme InterfaceDataHolder" where
  "sort_interfaces_loop [] h = Inr h"
| "sort_interfaces_loop (t # ts) h =
     (case get_interfaces_for_termination_sorted_by_strain_and_size h (Termination t) of
        Inl e \<Rightarrow> Inl e
      | Inr interfaces \<Rightarrow> sort_interfaces_loop ts (set_interfaces_for_termination h t interfaces))"

definition sort_interfaces_for_all_terminations_by_strain_and_size ::
  "'a Interface_scheme InterfaceDataHolder \<Rightarrow> error + 'a Interface_scheme InterfaceDataHolder" where
  "sort_interfaces_for_all_terminations_by_strain_and_size h = sort_interfaces_loop (terminations h) h"

subsection \<open>Removing duplicates\<close>

text \<open>
  \<open>np.allclose(a, b)\<close> with numpy's defaults \<open>rtol = 1e-05\<close>, \<open>atol = 1e-08\<close> tests
  \<open>|a - b| <= atol + rtol * |b|\<close>; the bound is taken from the second argument only.
\<close>

definition allclose :: "rat \<Rightarrow> rat \<Rightarrow> bool" where
  "allclose a b = (\<bar>a - b\<bar> \<le> 1 / 100000000 + (1 / 100000) * \<bar>b\<bar>)"

definition are_interfaces_duplicate :: "'a Interface_scheme \<Rightarrow> 'a Interface_scheme \<Rightarrow> bool" where
  "are_interfaces_duplicate interface1 interface2 =
     (num_sites interface1 = num_sites interface2
      \<and> allclose (mean_abs_strain interface1) (mean_abs_strain interface2))"

text \<open>
  The loop \<open>for interface in sorted_interfaces[1:]\<close> with its accumulator
  \<open>filtered_interfaces\<close>, which starts as the first candidate alone (or empty for an
  empty group). \<open>remove_duplicate_interfaces_for_termination\<close> is called with the
  termination pairs of \<open>self.terminations\<close>.
\<close>

fun filter_duplicates_loop ::
  "'a Interface_scheme list \<Rightarrow> 'a Interface_scheme list \<Rightarrow> 'a Interface_scheme list" where
  "filter_duplicates_loop [] filtered_interfaces = filtered_interfaces"
| "filter_duplicates_loop (interface # rest) filtered_interfaces =
     filter_duplicates_loop rest
       (if \<not> list_ex (are_interfaces_duplicate interface) filtered_interfaces
        then filtered_interfaces @ [interface] else filtered_interfaces)"

definition filter_duplicates :: "'a Interface_scheme list \<Rightarrow> 'a Interface_scheme list" where
  "filter_duplicates sorted_interfaces =
     filter_duplicates_loop (tl sorted_interfaces)
       (case sorted_interfaces of [] \<Rightarrow> [] | first # _ \<Rightarrow> [first])"

definition remove_duplicate_interfaces_for_termination ::
  "'a Interface_scheme InterfaceDataHolder \<Rightarrow> TerminationType
     \<Rightarrow> error + 'a Interface_scheme InterfaceDataHolder" where
  "remove_duplicate_interfaces_for_termination h t =
     (case get_interfaces_for_termination_sorted_by_size h (Termination t) of
        Inl e \<Rightarrow> Inl e
      | Inr sorted_interfaces \<Rightarrow>
          Inr (set_interfaces_for_termination h t (filter_duplicates sorted_interfaces)))"

fun remove_duplicates_loop ::
  "TerminationType list \<Rightarrow> 'a Interface_scheme InterfaceDataHolder
     \<Rightarrow> error + 'a Interface_scheme InterfaceDataHolder" where
  "remove_duplicates_loop [] h = Inr h"
| "remove_duplicates_loop (t # ts) h =
     (case remove_duplicate_interfaces_for_termination h t of
        Inl e \<Rightarrow> Inl e
      | Inr h' \<Rightarrow> remove_duplicates_loop ts h')"

definition remove_duplicate_interfaces ::
  "'a Interface_scheme InterfaceDataHolder \<Rightarrow> error + 'a Interface_scheme InterfaceDataHolder" where
  "remove_duplicate_interfaces h = remove_duplicates_loop (terminations h) h"

subsection \<open>Adding entries and construction\<close>

text \<open>
  \<open>list(set(all_terminations))\<close> enumerates the distinct terminations in an order
  Python does not fix; the enumeration is the parameter \<open>unique\<close>. The entries are
  a list (\<open>convert_to_array_if_not\<close> only wraps a single item into one).
\<close>

fun add_entries_loop ::
  "TerminationType list \<Rightarrow> 'a Interface_scheme list \<Rightarrow> 'a Interface_scheme InterfaceDataHolder
     \<Rightarrow> error + 'a Interface_scheme InterfaceDataHolder" where
  "add_entries_loop [] entries h = Inr h"
| "add_entries_loop (t # ts) entries h =
     (case add_interfaces_for_termination h t (filter (\<lambda>entry. interface_termination entry = t) entries) of
        Inl e \<Rightarrow> Inl e
      | Inr h' \<Rightarrow> add_entries_loop ts entries h')"

definition add_data_entries ::
  "(TerminationType list \<Rightarrow> TerminationType list) \<Rightarrow> 'a Interface_scheme InterfaceDataHolder
     \<Rightarrow> 'a Interface_scheme list \<Rightarrow> bool \<Rightarrow> bool
     \<Rightarrow> error + 'a Interface_scheme InterfaceDataHolder" where
  "add_data_entries unique h entries sort_interfaces_by_strain_and_size remove_duplicates =
     (let all_terminations = map interface_termination entries;
          unique_terminations = unique all_terminations
      in case add_entries_loop unique_terminations entries h of
           Inl e \<Rightarrow> Inl e
         | Inr h1 \<Rightarrow>
             (case (if sort_interfaces_by_strain_and_size
                    then sort_interfaces_for_all_terminations_by_strain_and_size h1 else Inr h1) of
                Inl e \<Rightarrow> Inl e
              | Inr h2 \<Rightarrow> (if remove_duplicates then remove_duplicate_interfaces h2 else Inr h2)))"

definition InterfaceDataHolder_init ::
  "(TerminationType list \<Rightarrow> TerminationType list) \<Rightarrow> 'a Interface_scheme list
     \<Rightarrow> error + 'a Interface_scheme InterfaceDataHolder" where
  "InterfaceDataHolder_init unique entries =
     add_data_entries unique \<lparr>data = [], terminations = []\<rparr> entries True True"

text \<open>
  \<open>functools.reduce(f, xs)\<close> without an initial value raises TypeError on an empty
  iterable and otherwise folds from the first element; \<open>self.data.values()\<close> lists the
  dict's values in insertion order.
\<close>

definition get_all_interfaces :: "'i InterfaceDataHolder \<Rightarrow> error + 'i list" where
  "get_all_interfaces h =
     (case map snd (data h) of
        [] \<Rightarrow> Inl TypeError
      | v # vs \<Rightarrow> Inr (foldl (\<lambda>a b. a @ b) v vs))"

section \<open>Point defects (tools/build/defect/__init__.py)\<close>

text \<open>
  The enum's declaration (\<open>defect/enums.py\<close>) is not among the sources. The three
  members the factory names are constructors; \<open>OtherDefectType\<close> stands for any other
  value the attribute \<open>defect_type\<close> of a configuration holds. The builder classes
  (\<open>defect/builders.py\<close>) are absent too: a builder object is its class applied to
  the parameters, its method \<open>get_material\<close> and its truth value (the test
  \<open>if builder\<close>) are parameters of \<open>create_defect\<close>.
\<close>

datatype PointDefectTypeEnum = VACANCY | SUBSTITUTION | INTERSTITIAL | OtherDefectType string

datatype 'p PointDefectBuilder = VacancyBuilder 'p | SubstitutionBuilder 'p | InterstitialBuilder 'p

record 'm PointDefectConfiguration =
  crystal :: 'm
  defect_type :: PointDefectTypeEnum

definition DEFECT_BUILDER_FACTORY :: "'p \<Rightarrow> (PointDefectTypeEnum \<times> 'p PointDefectBuilder) list" where
  "DEFECT_BUILDER_FACTORY builder_parameters =
     [(VACANCY, VacancyBuilder builder_parameters),
      (SUBSTITUTION, SubstitutionBuilder builder_parameters),
      (INTERSTITIAL, InterstitialBuilder builder_parameters)]"

text \<open>The subscript \<open>d[key]\<close> of a dict raises KeyError for a key that is not in it.\<close>

definition create_defect ::
  "('p PointDefectBuilder \<Rightarrow> ('m, 'z) PointDefectConfiguration_scheme \<Rightarrow> 'm)
     \<Rightarrow> ('p PointDefectBuilder \<Rightarrow> bool)
     \<Rightarrow> ('m, 'z) PointDefectConfiguration_scheme \<Rightarrow> 'p \<Rightarrow> error + 'm" where
  "create_defect get_material truthy configuration builder_parameters =
     (case map_of (DEFECT_BUILDER_FACTORY builder_parameters) (defect_type configuration) of
        None \<Rightarrow> Inl KeyError
      | Some builder \<Rightarrow>
          Inr (if truthy builder then get_material builder configuration else crystal configuration))"

section \<open>Slabs (tools/build/slab.py)\<close>

text \<open>
  Of a \<open>SlabGenerator\<close> the method reads \<open>_slab_structures\<close> and
  \<open>xy_supercell_matrix\<close>. \<open>label_termination\<close>, \<open>from_pymatgen\<close>, the \<open>Material\<close>
  constructor and \<open>create_supercell\<close> come from pymatgen and from modules that are not
  among the sources; they are parameters. Returning \<open>None\<close> is \<open>None\<close>.
\<close>

record ('s, 'x) SlabGenerator =
  slab_structures :: "'s list"
  xy_supercell_matrix :: 'x

fun get_slab_loop ::
  "('s \<Rightarrow> string) \<Rightarrow> ('s \<Rightarrow> 'c) \<Rightarrow> ('c \<Rightarrow> 'm) \<Rightarrow> ('m \<Rightarrow> 'x \<Rightarrow> 'm)
     \<Rightarrow> 'x \<Rightarrow> string \<Rightarrow> 's list \<Rightarrow> 'm option" where
  "get_slab_loop label_termination from_pymatgen Material create_supercell xy termination [] = None"
| "get_slab_loop label_termination from_pymatgen Material create_supercell xy termination
     (slab_structure # rest) =
     (if label_termination slab_structure = termination
      then Some (create_supercell (Material (from_pymatgen slab_structure)) xy)
      else get_slab_loop label_termination from_pymatgen Material create_supercell xy termination rest)"

definition get_slab_with_termination ::
  "('s \<Rightarrow> string) \<Rightarrow> ('s \<Rightarrow> 'c) \<Rightarrow> ('c \<Rightarrow> 'm) \<Rightarrow> ('m \<Rightarrow> 'x \<Rightarrow> 'm)
     \<Rightarrow> ('s, 'x, 'z) SlabGenerator_scheme \<Rightarrow> string \<Rightarrow> 'm option" where
  "get_slab_with_termination label_termination from_pymatgen Material create_supercell self termination =
     get_slab_loop label_termination from_pymatgen Material create_supercell
       (xy_supercell_matrix self) termination (slab_structures self)"

section \<open>Materials (tools/modify.py)\<close>

text \<open>
  A basis holds three lists of dicts \<open>{"id": i, "value": v}\<close>, each dict the pair
  \<open>(i, v)\<close>. The rest of a material (lattice, name, ...) is the record's extension.
  Material objects are mutable and passed by reference: a heap maps addresses to
  materials, and a function that mutates its argument returns the new heap.
\<close>

record ('c, 'e, 'l) Basis =
  coordinates :: "(nat \<times> 'c) list"
  elements :: "(nat \<times> 'e) list"
  labels :: "(nat \<times> 'l) list"

record ('c, 'e, 'l) Material =
  basis :: "('c, 'e, 'l) Basis"

type_synonym addr = nat

text \<open>
  \<open>[x for idx, x in enumerate(xs) if idx in indices]\<close>: the entries of \<open>xs\<close> whose
  position is a member of \<open>indices\<close>.
\<close>

definition select_by_indices :: "nat list \<Rightarrow> 'a list \<Rightarrow> 'a list" where
  "select_by_indices indices xs =
     map snd (filter (\<lambda>(idx, x). idx \<in> set indices) (enumerate 0 xs))"

definition filter_by_label ::
  "(addr \<Rightarrow> ('c, 'e, 'l, 'z) Material_scheme) \<Rightarrow> addr \<Rightarrow> 'l
     \<Rightarrow> (addr \<Rightarrow> ('c, 'e, 'l, 'z) Material_scheme) \<times> addr" where
  "filter_by_label heap material label =
     (let labels = labels (basis (heap material));
          indices = map fst (filter (\<lambda>(idx, l). snd l = label) (enumerate 0 labels));
          heap1 = heap(material := (heap material)\<lparr>basis := (basis (heap material))
                    \<lparr>coordinates := select_by_indices indices (coordinates (basis (heap material)))\<rparr>\<rparr>);
          heap2 = heap1(material := (heap1 material)\<lparr>basis := (basis (heap1 material))
                    \<lparr>elements := select_by_indices indices (elements (basis (heap1 material)))\<rparr>\<rparr>)
      in (heap2, material))"

section \<open>Notions used in the statements\<close>

text \<open>
  A holder is consistent when its list of terminations is the list of keys of its
  dict, in the same order and without repetition. The empty holder is consistent,
  and \<open>add_termination\<close>, the only method that extends either, extends both.
\<close>

definition consistent :: "'i InterfaceDataHolder \<Rightarrow> bool" where
  "consistent h = (map fst (data h) = terminations h \<and> distinct (terminations h))"

text \<open>
  Both loops over \<open>self.terminations\<close> replace each group by a function of it:
  \<open>map_groups\<close> is that iteration, with the KeyError of a missing group.
\<close>

fun map_groups ::
  "('i list \<Rightarrow> 'i list) \<Rightarrow> TerminationType list \<Rightarrow> 'i InterfaceDataHolder
     \<Rightarrow> error + 'i InterfaceDataHolder" where
  "map_groups G [] h = Inr h"
| "map_groups G (t # ts) h =
     (case map_of (data h) t of
        None \<Rightarrow> Inl KeyError
      | Some xs \<Rightarrow> map_groups G ts (set_interfaces_for_termination h t (G xs)))"

text \<open>
  Two orders on candidates. \<open>size_then_strain\<close>: site count first, strain among equal
  site counts. \<open>strain_then_size\<close>, the order in the words of the specification:
  strain first, site count among equal strains.
\<close>

definition size_then_strain :: "'a Interface_scheme \<Rightarrow> 'a Interface_scheme \<Rightarrow> bool" where
  "size_then_strain a b =
     (num_sites a < num_sites b \<or> (num_sites a = num_sites b \<and> strain_key a \<le> strain_key b))"

definition strain_then_size :: "'a Interface_scheme \<Rightarrow> 'a Interface_scheme \<Rightarrow> bool" where
  "strain_then_size a b =
     (strain_key a < strain_key b \<or> (strain_key a = strain_key b \<and> num_sites a \<le> num_sites b))"

section \<open>Example inputs\<close>

text \<open>
  \<open>INTERFACE_TERMINATION\<close> is the termination of \<open>tests/py/unit/fixtures.py\<close>. The
  candidates are chosen for their keys: \<open>candidate_large\<close> has more sites and less
  strain than \<open>candidate_small\<close>; \<open>candidate_1\<close>, \<open>candidate_2\<close>, \<open>candidate_3\<close>
  have the same site count and strains \<open>1\<close>, \<open>1.00001\<close>, \<open>1.00002\<close>, each within
  \<open>allclose\<close> of the next but the first and the last not. All these strains are
  multiples of the step \<open>10e-6\<close> to which \<open>interface_patch_with_mean_abs_strain\<close>
  rounds, and the comparisons between them are decided by margins of \<open>1e-8\<close>, far
  above the rounding of a double.
\<close>

definition INTERFACE_TERMINATION :: TerminationType where
  "INTERFACE_TERMINATION = (''Si_termination'', ''Cu_termination'')"

definition INTERFACE_TERMINATION_2 :: TerminationType where
  "INTERFACE_TERMINATION_2 = (''Si_termination'', ''Ni_termination'')"

definition candidate_large :: Interface where
  "candidate_large =
     \<lparr>num_sites = 10, interface_termination = INTERFACE_TERMINATION, mean_abs_strain = 1/10\<rparr>"

definition candidate_small :: Interface where
  "candidate_small =
     \<lparr>num_sites = 5, interface_termination = INTERFACE_TERMINATION, mean_abs_strain = 2/10\<rparr>"

definition candidate_1 :: Interface where
  "candidate_1 =
     \<lparr>num_sites = 4, interface_termination = INTERFACE_TERMINATION, mean_abs_strain = 1\<rparr>"

definition candidate_2 :: Interface where
  "candidate_2 =
     \<lparr>num_sites = 4, interface_termination = INTERFACE_TERMINATION,
      mean_abs_strain = 100001/100000\<rparr>"

definition candidate_3 :: Interface where
  "candidate_3 =
     \<lparr>num_sites = 4, interface_termination = INTERFACE_TERMINATION,
      mean_abs_strain = 100002/100000\<rparr>"

definition candidate_other :: Interface where
  "candidate_other =
     \<lparr>num_sites = 7, interface_termination = INTERFACE_TERMINATION_2, mean_abs_strain = 3/100\<rparr>"

definition holder_of :: "Interface list \<Rightarrow> Interface InterfaceDataHolder" where
  "holder_of xs = \<lparr>data = [(INTERFACE_TERMINATION, xs)], terminations = [INTERFACE_TERMINATION]\<rparr>"

definition empty_holder :: "Interface InterfaceDataHolder" where
  "empty_holder = \<lparr>data = [], terminations = []\<rparr>"

definition holder_two :: "Interface InterfaceDataHolder" where
  "holder_two =
     \<lparr>data = [(INTERFACE_TERMINATION, [candidate_large, candidate_small]),
              (INTERFACE_TERMINATION_2, [candidate_other])],
      terminations = [INTERFACE_TERMINATION, INTERFACE_TERMINATION_2]\<rparr>"

text \<open>
  \<open>section_material\<close> has two atoms and an empty list of labels, as the bases in
  \<open>tests/py/unit/test_tools_build.py\<close> have. \<open>tagged_material\<close> has one label per
  atom (the tags 1 and 2 that \<open>fixtures.py\<close> sets on substrate and film). Two heaps:
  one holding \<open>tagged_material\<close> at address 0, one holding at every address the
  unlabelled \<open>section_material\<close>.
\<close>

definition section_material :: "(rat list, string, nat) Material" where
  "section_material = \<lparr>basis =
     \<lparr>coordinates = [(0, [0, 0, 0]), (3, [1/2, 1/2, 0])],
      elements = [(0, ''Ge''), (3, ''Ni'')],
      labels = []\<rparr>\<rparr>"

definition tagged_material :: "(rat list, string, nat) Material" where
  "tagged_material = \<lparr>basis =
     \<lparr>coordinates = [(0, [0, 0, 0]), (1, [0, 0, 1/2])],
      elements = [(0, ''Si''), (1, ''Cu'')],
      labels = [(0, 1), (1, 2)]\<rparr>\<rparr>"

definition tagged_heap :: "addr \<Rightarrow> (rat list, string, nat) Material" where
  "tagged_heap a = (if a = 0 then tagged_material else section_material)"

definition unlabelled_heap :: "addr \<Rightarrow> (rat list, string, nat) Material" where
  "unlabelled_heap a = section_material"

text \<open>Three slab structures, each its termination label and a number telling them apart.\<close>

definition example_generator :: "(string \<times> nat, nat) SlabGenerator" where
  "example_generator =
     \<lparr>slab_structures = [(''Si_P6/mmm_1'', 0), (''Si_R-3m_2'', 1), (''Si_R-3m_2'', 2)],
      xy_supercell_matrix = 2\<rparr>"

lemmas example_defs =
  INTERFACE_TERMINATION_def INTERFACE_TERMINATION_2_def candidate_large_def candidate_small_def
  candidate_1_def candidate_2_def candidate_3_def candidate_other_def holder_of_def holder_two_def

section \<open>Lemmas\<close>

subsection \<open>Stable two-pass sorting\<close>

lemma lex_sorted_from_parts:
  fixes f :: "'a \<Rightarrow> 'k::linorder" and g :: "'a \<Rightarrow> 'r::linorder"
  assumes "sorted (map f ys)" and "\<And>k. sorted (map g (filter (\<lambda>y. f y = k) ys))"
  shows "sorted_wrt (\<lambda>a b. f a < f b \<or> (f a = f b \<and> g a \<le> g b)) ys"
  using assms
proof (induction ys)
  case Nil
  then show ?case by simp
next
  case (Cons y ys)
  have tail: "sorted_wrt (\<lambda>a b. f a < f b \<or> (f a = f b \<and> g a \<le> g b)) ys"
  proof (rule Cons.IH)
    show "sorted (map f ys)" using Cons.prems(1) by simp
    fix k
    show "sorted (map g (filter (\<lambda>y. f y = k) ys))"
      using Cons.prems(2)[of k] by (simp split: if_splits)
  qed
  have head: "f y < f z \<or> (f y = f z \<and> g y \<le> g z)" if z: "z \<in> set ys" for z
  proof -
    have le: "f y \<le> f z" using Cons.prems(1) z by auto
    show ?thesis
    proof (cases "f y = f z")
      case True
      have "sorted (map g (y # filter (\<lambda>u. f u = f y) ys))"
        using Cons.prems(2)[of "f y"] by simp
      moreover have "z \<in> set (filter (\<lambda>u. f u = f y) ys)" using z True by simp
      ultimately have "g y \<le> g z" by auto
      with True show ?thesis by simp
    next
      case False
      with le show ?thesis by simp
    qed
  qed
  show ?case using tail head by simp
qed

lemma sort_key_twice_lex:
  fixes f :: "'a \<Rightarrow> 'k::linorder" and g :: "'a \<Rightarrow> 'r::linorder"
  shows "sorted_wrt (\<lambda>a b. f a < f b \<or> (f a = f b \<and> g a \<le> g b)) (sort_key f (sort_key g xs))"
proof (rule lex_sorted_from_parts)
  show "sorted (map f (sort_key f (sort_key g xs)))" by (rule sorted_sort_key)
  fix k
  have "sorted (map g (sort_key g xs))" by (rule sorted_sort_key)
  then have "sorted (map g (filter (\<lambda>y. f y = k) (sort_key g xs)))" by (rule sorted_filter)
  then show "sorted (map g (filter (\<lambda>y. f y = k) (sort_key f (sort_key g xs))))"
    by (simp add: sort_key_stable)
qed

lemma size_then_strain_eq:
  "size_then_strain = (\<lambda>a b. num_sites a < num_sites b \<or> (num_sites a = num_sites b \<and> strain_key a \<le> strain_key b))"
  by (intro ext) (simp add: size_then_strain_def)

lemma two_pass_sorted: "sorted_wrt size_then_strain (sort_key num_sites (sort_key strain_key xs))"
  unfolding size_then_strain_eq by (rule sort_key_twice_lex)

subsection \<open>The duplicate filter\<close>

lemma filter_duplicates_loop_sorted_wrt:
  "sorted_wrt R (acc @ xs) \<Longrightarrow> sorted_wrt R (filter_duplicates_loop xs acc)"
proof (induction xs arbitrary: acc)
  case Nil
  then show ?case by simp
next
  case (Cons x xs)
  show ?case
  proof (cases "list_ex (are_interfaces_duplicate x) acc")
    case True
    have "sorted_wrt R (acc @ xs)" using Cons.prems by (auto simp add: sorted_wrt_append)
    then show ?thesis using True Cons.IH[of acc] by simp
  next
    case False
    have "sorted_wrt R ((acc @ [x]) @ xs)" using Cons.prems by simp
    then show ?thesis using False Cons.IH[of "acc @ [x]"] by simp
  qed
qed

lemma filter_duplicates_sorted_wrt:
  "sorted_wrt R xs \<Longrightarrow> sorted_wrt R (filter_duplicates xs)"
  by (cases xs) (simp_all add: filter_duplicates_def filter_duplicates_loop_sorted_wrt)

lemma filter_duplicates_loop_unique:
  "sorted_wrt (\<lambda>u x. \<not> are_interfaces_duplicate x u) acc
   \<Longrightarrow> sorted_wrt (\<lambda>u x. \<not> are_interfaces_duplicate x u) (filter_duplicates_loop xs acc)"
proof (induction xs arbitrary: acc)
  case Nil
  then show ?case by simp
next
  case (Cons x xs)
  show ?case
  proof (cases "list_ex (are_interfaces_duplicate x) acc")
    case True
    then show ?thesis using Cons by simp
  next
    case False
    then have "sorted_wrt (\<lambda>u x. \<not> are_interfaces_duplicate x u) (acc @ [x])"
      using Cons.prems by (simp add: sorted_wrt_append list_ex_iff)
    then show ?thesis using False Cons.IH[of "acc @ [x]"] by simp
  qed
qed

lemma filter_duplicates_unique:
  "sorted_wrt (\<lambda>u x. \<not> are_interfaces_duplicate x u) (filter_duplicates xs)"
  by (cases xs) (simp_all add: filter_duplicates_def filter_duplicates_loop_unique)

lemma filter_duplicates_loop_extends:
  "\<exists>zs. filter_duplicates_loop xs acc = acc @ zs \<and> set zs \<subseteq> set xs"
proof (induction xs arbitrary: acc)
  case Nil
  then show ?case by simp
next
  case (Cons x xs)
  show ?case
  proof (cases "list_ex (are_interfaces_duplicate x) acc")
    case True
    then show ?thesis using Cons.IH[of acc] by auto
  next
    case False
    obtain zs where "filter_duplicates_loop xs (acc @ [x]) = (acc @ [x]) @ zs" "set zs \<subseteq> set xs"
      using Cons.IH[of "acc @ [x]"] by blast
    then show ?thesis using False by (intro exI[of _ "x # zs"]) auto
  qed
qed

lemma filter_duplicates_loop_covers:
  "x \<in> set xs \<Longrightarrow>
     x \<in> set (filter_duplicates_loop xs acc)
     \<or> (\<exists>u \<in> set (filter_duplicates_loop xs acc). are_interfaces_duplicate x u)"
proof (induction xs arbitrary: acc)
  case Nil
  then show ?case by simp
next
  case (Cons y xs)
  let ?acc' = "if \<not> list_ex (are_interfaces_duplicate y) acc then acc @ [y] else acc"
  obtain zs where zs: "filter_duplicates_loop xs ?acc' = ?acc' @ zs"
    using filter_duplicates_loop_extends[of xs ?acc'] by blast
  show ?case
  proof (cases "x \<in> set xs")
    case True
    then show ?thesis using Cons.IH[of ?acc'] by simp
  next
    case False
    then have xy: "x = y" using Cons.prems by simp
    show ?thesis
    proof (cases "list_ex (are_interfaces_duplicate y) acc")
      case True
      then obtain u where "u \<in> set acc" "are_interfaces_duplicate y u" by (auto simp add: list_ex_iff)
      then show ?thesis using True zs xy by auto
    next
      case False
      then show ?thesis using zs xy by auto
    qed
  qed
qed

lemma filter_duplicates_head: "filter_duplicates (x # xs) \<noteq> [] \<and> hd (filter_duplicates (x # xs)) = x"
  using filter_duplicates_loop_extends[of xs "[x]"] by (auto simp add: filter_duplicates_def)

lemma filter_duplicates_subset: "set (filter_duplicates xs) \<subseteq> set xs"
  using filter_duplicates_loop_extends[of "tl xs" "[hd xs]"]
  by (cases xs) (auto simp add: filter_duplicates_def)

lemma filter_duplicates_covers:
  "x \<in> set xs \<Longrightarrow> x \<in> set (filter_duplicates xs) \<or> (\<exists>u \<in> set (filter_duplicates xs). are_interfaces_duplicate x u)"
proof (cases xs)
  case Nil
  assume "x \<in> set xs" with Nil show ?thesis by simp
next
  case (Cons y ys)
  assume x: "x \<in> set xs"
  obtain zs where zs: "filter_duplicates_loop ys [y] = [y] @ zs"
    using filter_duplicates_loop_extends[of ys "[y]"] by blast
  show ?thesis
  proof (cases "x \<in> set ys")
    case True
    then show ?thesis using filter_duplicates_loop_covers[of x ys "[y]"] Cons
      by (simp add: filter_duplicates_def)
  next
    case False
    then have "x = y" using x Cons by simp
    then show ?thesis using zs Cons by (simp add: filter_duplicates_def)
  qed
qed

lemma filter_duplicates_loop_append:
  "filter_duplicates_loop (xs @ ys) acc = filter_duplicates_loop ys (filter_duplicates_loop xs acc)"
  by (induction xs arbitrary: acc) simp_all

lemma filter_duplicates_snoc:
  "pre \<noteq> [] \<Longrightarrow> filter_duplicates (pre @ [x])
     = (if list_ex (are_interfaces_duplicate x) (filter_duplicates pre)
        then filter_duplicates pre else filter_duplicates pre @ [x])"
  by (cases pre) (simp_all add: filter_duplicates_def filter_duplicates_loop_append)

lemma filter_duplicates_prefix:
  "pre \<noteq> [] \<Longrightarrow> \<exists>zs. filter_duplicates (pre @ post) = filter_duplicates pre @ zs"
  using filter_duplicates_loop_extends
  by (cases pre) (simp_all add: filter_duplicates_def filter_duplicates_loop_append, blast)

subsection \<open>Holders\<close>

lemma get_by_key:
  "get_interfaces_for_termination h (Termination t) None
     = (case map_of (data h) t of None \<Rightarrow> Inl KeyError | Some xs \<Rightarrow> Inr xs)"
  by (simp add: get_interfaces_for_termination_def get_interfaces_for_termination_or_its_index_def
      get_termination_def filter_by_slice_or_index_or_indices_def split: option.splits)

lemma sort_interfaces_loop_map_groups:
  "sort_interfaces_loop ts h = map_groups (\<lambda>xs. sort_key num_sites (sort_key strain_key xs)) ts h"
  by (induction ts arbitrary: h)
     (simp_all add: get_interfaces_for_termination_sorted_by_strain_and_size_def
        get_interfaces_for_termination_sorted_by_strain_def get_by_key split: option.splits)

lemma remove_duplicates_loop_map_groups:
  "remove_duplicates_loop ts h = map_groups (\<lambda>xs. filter_duplicates (sort_key num_sites xs)) ts h"
  by (induction ts arbitrary: h)
     (simp_all add: remove_duplicate_interfaces_for_termination_def
        get_interfaces_for_termination_sorted_by_size_def get_by_key split: option.splits)

lemma set_interfaces_fields:
  "terminations (set_interfaces_for_termination h t xs) = terminations h"
  "map_of (data (set_interfaces_for_termination h t xs)) = (map_of (data h))(t \<mapsto> xs)"
  "map fst (data (set_interfaces_for_termination h t xs))
     = (if t \<in> set (map fst (data h)) then map fst (data h) else map fst (data h) @ [t])"
  by (simp_all add: set_interfaces_for_termination_def update_conv' update_keys)

lemma map_groups_result:
  "distinct ts \<Longrightarrow> set ts \<subseteq> set (map fst (data h)) \<Longrightarrow>
     \<exists>h'. map_groups G ts h = Inr h' \<and> terminations h' = terminations h
        \<and> map fst (data h') = map fst (data h)
        \<and> (\<forall>t. map_of (data h') t
                = (if t \<in> set ts then map_option G (map_of (data h) t) else map_of (data h) t))"
proof (induction ts arbitrary: h)
  case Nil
  then show ?case by simp
next
  case (Cons t ts)
  from Cons.prems(2) have "t \<in> fst ` set (data h)" by auto
  then obtain xs where xs: "map_of (data h) t = Some xs"
    by (metis domD dom_map_of_conv_image_fst)
  let ?h1 = "set_interfaces_for_termination h t (G xs)"
  have keys1: "map fst (data ?h1) = map fst (data h)"
    using Cons.prems(2) by (simp add: set_interfaces_fields)
  have "distinct ts" and "set ts \<subseteq> set (map fst (data ?h1))"
    using Cons.prems keys1 by auto
  from Cons.IH[OF this] obtain h' where h':
    "map_groups G ts ?h1 = Inr h'" "terminations h' = terminations ?h1"
    "map fst (data h') = map fst (data ?h1)"
    "\<forall>u. map_of (data h') u
        = (if u \<in> set ts then map_option G (map_of (data ?h1) u) else map_of (data ?h1) u)"
    by blast
  have "t \<notin> set ts" using Cons.prems(1) by simp
  then have "\<forall>u. map_of (data h') u
     = (if u \<in> set (t # ts) then map_option G (map_of (data h) u) else map_of (data h) u)"
    using h'(4) xs by (auto simp add: set_interfaces_fields)
  then show ?case using h'(1,2,3) xs keys1 by (simp add: set_interfaces_fields)
qed

lemma add_termination_consistent:
  "consistent h \<Longrightarrow> consistent (add_termination h t) \<and> t \<in> set (terminations (add_termination h t))"
  by (auto simp add: consistent_def add_termination_def set_interfaces_for_termination_def update_keys)

lemma add_interfaces_for_termination_consistent:
  assumes "consistent h"
  shows "\<exists>h'. add_interfaces_for_termination h t xs = Inr h' \<and> consistent h'"
proof -
  let ?h1 = "add_termination h t"
  have c1: "consistent ?h1" and t1: "t \<in> set (terminations ?h1)"
    using add_termination_consistent[OF assms] by auto
  then have "t \<in> fst ` set (data ?h1)" by (metis consistent_def list.set_map)
  then obtain old where old: "map_of (data ?h1) t = Some old"
    by (metis domD dom_map_of_conv_image_fst)
  have "consistent (set_interfaces_for_termination ?h1 t (old @ xs))"
    using c1 t1 by (simp add: consistent_def set_interfaces_fields)
  then show ?thesis using old by (simp add: add_interfaces_for_termination_def get_by_key Let_def)
qed

lemma add_entries_loop_consistent:
  "consistent h \<Longrightarrow> \<exists>h'. add_entries_loop ts entries h = Inr h' \<and> consistent h'"
proof (induction ts arbitrary: h)
  case Nil
  then show ?case by simp
next
  case (Cons t ts)
  obtain h1 where "add_interfaces_for_termination h t (filter (\<lambda>entry. interface_termination entry = t) entries) = Inr h1"
    "consistent h1"
    using add_interfaces_for_termination_consistent[OF Cons.prems] by blast
  then show ?case using Cons.IH[of h1] by simp
qed

lemma sort_all_result:
  assumes "consistent h"
  shows "\<exists>h'. sort_interfaces_for_all_terminations_by_strain_and_size h = Inr h' \<and> consistent h'
     \<and> (\<forall>t. map_of (data h') t = map_option (\<lambda>xs. sort_key num_sites (sort_key strain_key xs)) (map_of (data h) t))"
proof -
  have d: "distinct (terminations h)" and s: "set (terminations h) \<subseteq> set (map fst (data h))"
    using assms by (simp_all add: consistent_def)
  obtain h' where h': "map_groups (\<lambda>xs. sort_key num_sites (sort_key strain_key xs)) (terminations h) h = Inr h'"
     "terminations h' = terminations h" "map fst (data h') = map fst (data h)"
     "\<forall>t. map_of (data h') t
                = (if t \<in> set (terminations h) then map_option (\<lambda>xs. sort_key num_sites (sort_key strain_key xs)) (map_of (data h) t) else map_of (data h) t)"
    using map_groups_result[OF d s] by blast
  have "map_of (data h) t = None" if "t \<notin> set (terminations h)" for t
    using that assms by (metis consistent_def map_of_eq_None_iff list.set_map)
  then have "\<forall>t. map_of (data h') t = map_option (\<lambda>xs. sort_key num_sites (sort_key strain_key xs)) (map_of (data h) t)"
    using h'(4) by auto
  then show ?thesis using h'(1,2,3) assms
    by (simp add: sort_interfaces_for_all_terminations_by_strain_and_size_def
        sort_interfaces_loop_map_groups consistent_def)
qed

lemma remove_all_result:
  assumes "consistent h"
  shows "\<exists>h'. remove_duplicate_interfaces h = Inr h' \<and> consistent h' \<and> terminations h' = terminations h
     \<and> (\<forall>t. map_of (data h') t = map_option (\<lambda>xs. filter_duplicates (sort_key num_sites xs)) (map_of (data h) t))"
proof -
  have d: "distinct (terminations h)" and s: "set (terminations h) \<subseteq> set (map fst (data h))"
    using assms by (simp_all add: consistent_def)
  obtain h' where h': "map_groups (\<lambda>xs. filter_duplicates (sort_key num_sites xs)) (terminations h) h = Inr h'"
     "terminations h' = terminations h" "map fst (data h') = map fst (data h)"
     "\<forall>t. map_of (data h') t
                = (if t \<in> set (terminations h) then map_option (\<lambda>xs. filter_duplicates (sort_key num_sites xs)) (map_of (data h) t) else map_of (data h) t)"
    using map_groups_result[OF d s] by blast
  have "map_of (data h) t = None" if "t \<notin> set (terminations h)" for t
    using that assms by (metis consistent_def map_of_eq_None_iff list.set_map)
  then have "\<forall>t. map_of (data h') t = map_option (\<lambda>xs. filter_duplicates (sort_key num_sites xs)) (map_of (data h) t)"
    using h'(4) by auto
  then show ?thesis using h'(1,2,3) assms
    by (simp add: remove_duplicate_interfaces_def remove_duplicates_loop_map_groups consistent_def)
qed


lemma foldl_append_concat: "foldl (\<lambda>a b. a @ b) v vs = v @ concat vs"
  by (induction vs arbitrary: v) simp_all

subsection \<open>Slabs and labels\<close>

lemma get_slab_loop_find:
  "get_slab_loop L F M C xy t slabs = map_option (\<lambda>s. C (M (F s)) xy) (find (\<lambda>s. L s = t) slabs)"
  by (induction slabs) simp_all

lemma select_by_indices_nths: "select_by_indices indices xs = nths xs (set indices)"
proof -
  have "enumerate 0 xs = map (\<lambda>(x, i). (i, x)) (zip xs [0..<length xs])"
    by (simp add: enumerate_eq_zip zip_commute[of "[0..<length xs]" xs])
  then show ?thesis
    by (simp add: select_by_indices_def nths_def filter_map comp_def case_prod_beta)
qed

lemma matching_indices_set:
  "set (map fst (filter (\<lambda>(idx, l). snd l = label) (enumerate 0 ls)))
     = {i. i < length ls \<and> snd (ls ! i) = label}"
  by (auto simp add: in_set_enumerate_eq image_iff case_prod_beta) 

section \<open>Claims\<close>

subsection \<open>C1: removal of duplicates\<close>

text \<open>
  C1, as the code has it. On a consistent holder \<open>remove_duplicate_interfaces\<close>
  succeeds, and every group \<open>xs\<close> becomes \<open>ys\<close>, the duplicate filter applied to
  \<open>xs\<close> sorted by site count (stably). The first candidate in that order is kept.
  The filter is greedy: the candidate \<open>x\<close> that follows a non-empty prefix \<open>pre\<close> of
  the sorted group is kept exactly when none of the candidates kept from \<open>pre\<close> has
  the same site count and a strain within the tolerance of \<open>allclose\<close>, and what was
  kept by then stays. Hence no retained candidate is a near-duplicate of one retained
  before it, and every candidate of the group is retained or is a near-duplicate of a
  retained one. Which of two near-duplicates survives is not said: see the
  counterexample below.
\<close>

theorem remove_duplicate_interfaces_greedy:
  assumes "consistent h"
  shows "\<exists>h'. remove_duplicate_interfaces h = Inr h' \<and> terminations h' = terminations h \<and>
     (\<forall>t xs. map_of (data h) t = Some xs \<longrightarrow>
        (\<exists>ys. map_of (data h') t = Some ys
            \<and> ys = filter_duplicates (sort_key num_sites xs)
            \<and> (xs \<noteq> [] \<longrightarrow> ys \<noteq> [] \<and> hd ys = hd (sort_key num_sites xs))
            \<and> (\<forall>pre x post. sort_key num_sites xs = pre @ x # post \<and> pre \<noteq> [] \<longrightarrow>
                  filter_duplicates (pre @ [x])
                    = (if list_ex (are_interfaces_duplicate x) (filter_duplicates pre)
                       then filter_duplicates pre else filter_duplicates pre @ [x])
                  \<and> (\<exists>zs. ys = filter_duplicates (pre @ [x]) @ zs))
            \<and> set ys \<subseteq> set xs \<and> sorted (map num_sites ys)
            \<and> (\<forall>i j. i < j \<and> j < length ys \<longrightarrow> \<not> are_interfaces_duplicate (ys ! j) (ys ! i))
            \<and> (\<forall>x \<in> set xs. x \<in> set ys \<or> (\<exists>u \<in> set ys. are_interfaces_duplicate x u))))"
proof -
  obtain h' where h': "remove_duplicate_interfaces h = Inr h'" "terminations h' = terminations h"
    "\<forall>t. map_of (data h') t
       = map_option (\<lambda>xs. filter_duplicates (sort_key num_sites xs)) (map_of (data h) t)"
    using remove_all_result[OF assms] by blast
  have props: "\<exists>ys. map_of (data h') t = Some ys
            \<and> ys = filter_duplicates (sort_key num_sites xs)
            \<and> (xs \<noteq> [] \<longrightarrow> ys \<noteq> [] \<and> hd ys = hd (sort_key num_sites xs))
            \<and> (\<forall>pre x post. sort_key num_sites xs = pre @ x # post \<and> pre \<noteq> [] \<longrightarrow>
                  filter_duplicates (pre @ [x])
                    = (if list_ex (are_interfaces_duplicate x) (filter_duplicates pre)
                       then filter_duplicates pre else filter_duplicates pre @ [x])
                  \<and> (\<exists>zs. ys = filter_duplicates (pre @ [x]) @ zs))
            \<and> set ys \<subseteq> set xs \<and> sorted (map num_sites ys)
            \<and> (\<forall>i j. i < j \<and> j < length ys \<longrightarrow> \<not> are_interfaces_duplicate (ys ! j) (ys ! i))
            \<and> (\<forall>x \<in> set xs. x \<in> set ys \<or> (\<exists>u \<in> set ys. are_interfaces_duplicate x u))"
    if txs: "map_of (data h) t = Some xs" for t xs
  proof -
    let ?srt = "sort_key num_sites xs"
    let ?ys = "filter_duplicates ?srt"
    have a: "map_of (data h') t = Some ?ys" using txs by (simp add: h'(3))
    have b: "xs \<noteq> [] \<longrightarrow> ?ys \<noteq> [] \<and> hd ?ys = hd ?srt"
    proof
      assume "xs \<noteq> []"
      then have "?srt \<noteq> []" by (metis set_sort set_empty)
      then obtain y rest where "?srt = y # rest" by (cases ?srt) auto
      then show "?ys \<noteq> [] \<and> hd ?ys = hd ?srt" using filter_duplicates_head[of y rest] by simp
    qed
    have c: "\<forall>pre x post. ?srt = pre @ x # post \<and> pre \<noteq> [] \<longrightarrow>
                  filter_duplicates (pre @ [x])
                    = (if list_ex (are_interfaces_duplicate x) (filter_duplicates pre)
                       then filter_duplicates pre else filter_duplicates pre @ [x])
                  \<and> (\<exists>zs. ?ys = filter_duplicates (pre @ [x]) @ zs)"
    proof (intro allI impI)
      fix pre x post
      assume s: "?srt = pre @ x # post \<and> pre \<noteq> []"
      then have "?srt = (pre @ [x]) @ post" by simp
      then have "\<exists>zs. ?ys = filter_duplicates (pre @ [x]) @ zs"
        using filter_duplicates_prefix[of "pre @ [x]" post] by simp
      then show "filter_duplicates (pre @ [x])
                    = (if list_ex (are_interfaces_duplicate x) (filter_duplicates pre)
                       then filter_duplicates pre else filter_duplicates pre @ [x])
                  \<and> (\<exists>zs. ?ys = filter_duplicates (pre @ [x]) @ zs)"
        using s filter_duplicates_snoc[of pre x] by blast
    qed
    have d: "set ?ys \<subseteq> set xs" using filter_duplicates_subset[of ?srt] by simp
    have "sorted_wrt (\<lambda>a b. num_sites a \<le> num_sites b) ?srt"
      using sorted_sort_key[of num_sites xs] by (simp add: sorted_map)
    then have "sorted_wrt (\<lambda>a b. num_sites a \<le> num_sites b) ?ys"
      by (rule filter_duplicates_sorted_wrt)
    then have e: "sorted (map num_sites ?ys)" by (simp add: sorted_map)
    have f: "\<forall>i j. i < j \<and> j < length ?ys \<longrightarrow> \<not> are_interfaces_duplicate (?ys ! j) (?ys ! i)"
      using filter_duplicates_unique[of ?srt] by (simp add: sorted_wrt_iff_nth_less)
    have g: "\<forall>x \<in> set xs. x \<in> set ?ys \<or> (\<exists>u \<in> set ?ys. are_interfaces_duplicate x u)"
      using filter_duplicates_covers[of _ ?srt] by simp
    show ?thesis using a b c d e f g by blast
  qed
  show ?thesis using h'(1,2) props by blast
qed

text \<open>
  The theorem at the holder of \<open>candidate_1\<close>, \<open>candidate_2\<close>, \<open>candidate_3\<close>: the
  holder is consistent, the group is found under its termination, and the stored
  result is the filter's.
\<close>

theorem remove_duplicate_interfaces_greedy_witness:
  "consistent (holder_of [candidate_1, candidate_2, candidate_3])
   \<and> map_of (data (holder_of [candidate_1, candidate_2, candidate_3])) INTERFACE_TERMINATION
       = Some [candidate_1, candidate_2, candidate_3]
   \<and> (\<exists>h'. remove_duplicate_interfaces (holder_of [candidate_1, candidate_2, candidate_3]) = Inr h'
         \<and> map_of (data h') INTERFACE_TERMINATION
             = Some (filter_duplicates (sort_key num_sites [candidate_1, candidate_2, candidate_3])))"
proof -
  have c: "consistent (holder_of [candidate_1, candidate_2, candidate_3])"
    by (simp add: consistent_def holder_of_def)
  have m: "map_of (data (holder_of [candidate_1, candidate_2, candidate_3])) INTERFACE_TERMINATION
       = Some [candidate_1, candidate_2, candidate_3]"
    by (simp add: holder_of_def)
  show ?thesis using c m remove_duplicate_interfaces_greedy[OF c] by blast
qed

text \<open>
  C1 as the specification states it, "among any two candidates of equal size and strain
  within tolerance, only the first in size order is retained", fails. The three
  candidates have the same site count and are already in size order. \<open>candidate_2\<close>
  is dropped as a near-duplicate of \<open>candidate_1\<close>; \<open>candidate_3\<close> is within
  tolerance of \<open>candidate_2\<close> (in both argument orders) but not of \<open>candidate_1\<close>, so
  of the pair \<open>candidate_2\<close>, \<open>candidate_3\<close> the second is retained and the first
  is not.
\<close>

theorem near_duplicate_chain_counterexample:
  "remove_duplicate_interfaces (holder_of [candidate_1, candidate_2, candidate_3])
      = Inr (holder_of [candidate_1, candidate_3])
   \<and> sort_key num_sites [candidate_1, candidate_2, candidate_3]
        = [candidate_1, candidate_2, candidate_3]
   \<and> num_sites candidate_2 = num_sites candidate_3
   \<and> allclose (mean_abs_strain candidate_3) (mean_abs_strain candidate_2)
   \<and> allclose (mean_abs_strain candidate_2) (mean_abs_strain candidate_3)
   \<and> are_interfaces_duplicate candidate_3 candidate_2"
  by (simp add: example_defs remove_duplicate_interfaces_def
      remove_duplicate_interfaces_for_termination_def
      get_interfaces_for_termination_sorted_by_size_def get_by_key
      set_interfaces_for_termination_def filter_duplicates_def are_interfaces_duplicate_def
      allclose_def)

subsection \<open>C2: the two-pass sort\<close>

text \<open>
  C2, as the code has it. Where the group can be retrieved,
  \<open>get_interfaces_for_termination_sorted_by_strain_and_size\<close> returns a rearrangement of
  it, the stable sort by site count of the stable sort by strain. The second pass
  decides the primary key: the list is non-decreasing in site count, among candidates of
  equal site count it is non-decreasing in mean absolute strain, and (as the claim says)
  among candidates of equal strain it is non-decreasing in site count.
\<close>

theorem two_pass_sort_is_size_then_strain:
  assumes "get_interfaces_for_termination h t None = Inr xs"
  shows "\<exists>ys. get_interfaces_for_termination_sorted_by_strain_and_size h t = Inr ys
     \<and> ys = sort_key num_sites (sort_key strain_key xs)
     \<and> mset ys = mset xs
     \<and> sorted (map num_sites ys)
     \<and> (\<forall>i j. i < j \<and> j < length ys \<and> num_sites (ys ! i) = num_sites (ys ! j)
           \<longrightarrow> strain_key (ys ! i) \<le> strain_key (ys ! j))
     \<and> (\<forall>i j. i < j \<and> j < length ys \<and> strain_key (ys ! i) = strain_key (ys ! j)
           \<longrightarrow> num_sites (ys ! i) \<le> num_sites (ys ! j))"
proof -
  let ?ys = "sort_key num_sites (sort_key strain_key xs)"
  have r: "get_interfaces_for_termination_sorted_by_strain_and_size h t = Inr ?ys"
    using assms by (simp add: get_interfaces_for_termination_sorted_by_strain_and_size_def
        get_interfaces_for_termination_sorted_by_strain_def)
  have m: "mset ?ys = mset xs" by simp
  have s: "sorted (map num_sites ?ys)" by (rule sorted_sort_key)
  have lex: "\<forall>i j. i < j \<longrightarrow> j < length ?ys \<longrightarrow> size_then_strain (?ys ! i) (?ys ! j)"
    using two_pass_sorted[of xs] by (simp add: sorted_wrt_iff_nth_less)
  have a: "\<forall>i j. i < j \<and> j < length ?ys \<and> num_sites (?ys ! i) = num_sites (?ys ! j)
           \<longrightarrow> strain_key (?ys ! i) \<le> strain_key (?ys ! j)"
  proof (intro allI impI)
    fix i j
    assume ij: "i < j \<and> j < length ?ys \<and> num_sites (?ys ! i) = num_sites (?ys ! j)"
    then have "size_then_strain (?ys ! i) (?ys ! j)" using lex by blast
    then show "strain_key (?ys ! i) \<le> strain_key (?ys ! j)"
      using ij by (simp add: size_then_strain_def)
  qed
  have b: "\<forall>i j. i < j \<and> j < length ?ys \<and> strain_key (?ys ! i) = strain_key (?ys ! j)
           \<longrightarrow> num_sites (?ys ! i) \<le> num_sites (?ys ! j)"
  proof (intro allI impI)
    fix i j
    assume ij: "i < j \<and> j < length ?ys \<and> strain_key (?ys ! i) = strain_key (?ys ! j)"
    then have "size_then_strain (?ys ! i) (?ys ! j)" using lex by blast
    then show "num_sites (?ys ! i) \<le> num_sites (?ys ! j)"
      by (auto simp add: size_then_strain_def)
  qed
  show ?thesis using r m s a b by blast
qed

text \<open>The theorem at the first termination of \<open>holder_two\<close>, retrieved by its index.\<close>

theorem two_pass_sort_is_size_then_strain_witness:
  "get_interfaces_for_termination holder_two (Index 0) None = Inr [candidate_large, candidate_small]
   \<and> (\<exists>ys. get_interfaces_for_termination_sorted_by_strain_and_size holder_two (Index 0) = Inr ys
     \<and> ys = sort_key num_sites (sort_key strain_key [candidate_large, candidate_small])
     \<and> mset ys = mset [candidate_large, candidate_small]
     \<and> sorted (map num_sites ys)
     \<and> (\<forall>i j. i < j \<and> j < length ys \<and> num_sites (ys ! i) = num_sites (ys ! j)
           \<longrightarrow> strain_key (ys ! i) \<le> strain_key (ys ! j))
     \<and> (\<forall>i j. i < j \<and> j < length ys \<and> strain_key (ys ! i) = strain_key (ys ! j)
           \<longrightarrow> num_sites (ys ! i) \<le> num_sites (ys ! j)))"
proof -
  have h: "get_interfaces_for_termination holder_two (Index 0) None
             = Inr [candidate_large, candidate_small]"
    by (simp add: holder_two_def get_interfaces_for_termination_def
        get_interfaces_for_termination_or_its_index_def get_termination_def
        filter_by_slice_or_index_or_indices_def)
  show ?thesis using h two_pass_sort_is_size_then_strain[OF h] by blast
qed

text \<open>
  C2 as the specification states it, "non-decreasing in mean absolute strain", fails:
  for the group of \<open>candidate_large\<close> (10 sites, strain 0.1) and \<open>candidate_small\<close>
  (5 sites, strain 0.2) the method returns the smaller candidate first, and the strains
  of the returned list decrease.
\<close>

theorem strain_not_primary_key_counterexample:
  "get_interfaces_for_termination_sorted_by_strain_and_size holder_two (Index 0)
      = Inr [candidate_small, candidate_large]
   \<and> strain_key candidate_large < strain_key candidate_small
   \<and> \<not> sorted (map strain_key [candidate_small, candidate_large])"
  by (simp add: example_defs get_interfaces_for_termination_sorted_by_strain_and_size_def
        get_interfaces_for_termination_sorted_by_strain_def get_interfaces_for_termination_def
        get_interfaces_for_termination_or_its_index_def get_termination_def
        filter_by_slice_or_index_or_indices_def strain_key_def sorted2 del: sorted_wrt.simps)

subsection \<open>C3: the holder after construction\<close>

text \<open>
  C3, as the code has it. Constructing a holder from any list of entries succeeds,
  whatever the enumeration of the distinct terminations, and so does
  \<open>add_data_entries\<close> with its default flags on a consistent holder. The result is
  consistent, and every stored group is sorted by site count, then by strain among
  equal site counts, and no candidate of it is a near-duplicate (same site count,
  strain within the tolerance of \<open>allclose\<close>) of a candidate stored before it.
\<close>

theorem constructed_holder_sorted_and_deduplicated:
  "(\<exists>h'. InterfaceDataHolder_init unique entries = Inr h' \<and> consistent h'
       \<and> (\<forall>(t, ys) \<in> set (data h').
             sorted_wrt size_then_strain ys
             \<and> (\<forall>i j. i < j \<and> j < length ys \<longrightarrow> \<not> are_interfaces_duplicate (ys ! j) (ys ! i))))
   \<and> (consistent h \<longrightarrow>
       (\<exists>h'. add_data_entries unique h entries True True = Inr h' \<and> consistent h'
       \<and> (\<forall>(t, ys) \<in> set (data h').
             sorted_wrt size_then_strain ys
             \<and> (\<forall>i j. i < j \<and> j < length ys \<longrightarrow> \<not> are_interfaces_duplicate (ys ! j) (ys ! i)))))"
proof -
  have main: "\<exists>h'. add_data_entries unique h0 entries True True = Inr h' \<and> consistent h'
       \<and> (\<forall>(t, ys) \<in> set (data h').
             sorted_wrt size_then_strain ys
             \<and> (\<forall>i j. i < j \<and> j < length ys \<longrightarrow> \<not> are_interfaces_duplicate (ys ! j) (ys ! i)))"
    if c0: "consistent h0" for h0 :: "'a Interface_scheme InterfaceDataHolder"
  proof -
    obtain h1 where h1:
      "add_entries_loop (unique (map interface_termination entries)) entries h0 = Inr h1"
      "consistent h1"
      using add_entries_loop_consistent[OF c0] by blast
    obtain h2 where h2: "sort_interfaces_for_all_terminations_by_strain_and_size h1 = Inr h2"
      "consistent h2"
      "\<forall>t. map_of (data h2) t
         = map_option (\<lambda>xs. sort_key num_sites (sort_key strain_key xs)) (map_of (data h1) t)"
      using sort_all_result[OF h1(2)] by blast
    obtain h3 where h3: "remove_duplicate_interfaces h2 = Inr h3" "consistent h3"
      "\<forall>t. map_of (data h3) t
         = map_option (\<lambda>xs. filter_duplicates (sort_key num_sites xs)) (map_of (data h2) t)"
      using remove_all_result[OF h2(2)] by blast
    have r: "add_data_entries unique h0 entries True True = Inr h3"
      using h1(1) h2(1) h3(1) by (simp add: add_data_entries_def)
    have p: "sorted_wrt size_then_strain ys
             \<and> (\<forall>i j. i < j \<and> j < length ys \<longrightarrow> \<not> are_interfaces_duplicate (ys ! j) (ys ! i))"
      if mem: "(t, ys) \<in> set (data h3)" for t ys
    proof -
      have "distinct (map fst (data h3))" using h3(2) by (simp add: consistent_def)
      then have "map_of (data h3) t = Some ys" using mem by simp
      then obtain zs where zs: "map_of (data h2) t = Some zs"
        "ys = filter_duplicates (sort_key num_sites zs)"
        by (auto simp add: h3(3))
      then obtain xs where xs: "zs = sort_key num_sites (sort_key strain_key xs)"
        by (auto simp add: h2(3))
      have "sort_key num_sites zs = zs"
        unfolding xs by (rule sort_key_id_if_sorted) (rule sorted_sort_key)
      then have ys: "ys = filter_duplicates zs" using zs(2) by simp
      have "sorted_wrt size_then_strain zs" unfolding xs by (rule two_pass_sorted)
      then have a: "sorted_wrt size_then_strain ys"
        unfolding ys by (rule filter_duplicates_sorted_wrt)
      have b: "\<forall>i j. i < j \<and> j < length ys \<longrightarrow> \<not> are_interfaces_duplicate (ys ! j) (ys ! i)"
        using filter_duplicates_unique[of zs] by (simp add: ys sorted_wrt_iff_nth_less)
      show ?thesis using a b by blast
    qed
    show ?thesis using r h3(2) p by blast
  qed
  have "consistent \<lparr>data = [], terminations = []\<rparr>" by (simp add: consistent_def)
  from main[OF this] have init: "\<exists>h'. InterfaceDataHolder_init unique entries = Inr h' \<and> consistent h'
       \<and> (\<forall>(t, ys) \<in> set (data h').
             sorted_wrt size_then_strain ys
             \<and> (\<forall>i j. i < j \<and> j < length ys \<longrightarrow> \<not> are_interfaces_duplicate (ys ! j) (ys ! i)))"
    by (simp add: InterfaceDataHolder_init_def)
  show ?thesis using init main by blast
qed

lemma init_example:
  "InterfaceDataHolder_init remdups
     [candidate_large, candidate_small, candidate_1, candidate_2, candidate_3]
     = Inr (holder_of [candidate_1, candidate_3, candidate_small, candidate_large])"
  by (simp add: example_defs InterfaceDataHolder_init_def add_data_entries_def
      add_interfaces_for_termination_def add_termination_def get_by_key
      set_interfaces_for_termination_def
      sort_interfaces_for_all_terminations_by_strain_and_size_def
      get_interfaces_for_termination_sorted_by_strain_and_size_def
      get_interfaces_for_termination_sorted_by_strain_def strain_key_def
      remove_duplicate_interfaces_def remove_duplicate_interfaces_for_termination_def
      get_interfaces_for_termination_sorted_by_size_def
      filter_duplicates_def are_interfaces_duplicate_def allclose_def)

text \<open>
  The theorem at five entries of one termination, enumerated by \<open>remdups\<close>, and at
  \<open>holder_two\<close> extended by the same entries: the constructed holder stores
  \<open>candidate_1\<close>, \<open>candidate_3\<close>, \<open>candidate_small\<close>, \<open>candidate_large\<close> in
  this order.
\<close>

theorem constructed_holder_sorted_and_deduplicated_witness:
  "InterfaceDataHolder_init remdups
     [candidate_large, candidate_small, candidate_1, candidate_2, candidate_3]
     = Inr (holder_of [candidate_1, candidate_3, candidate_small, candidate_large])
   \<and> (INTERFACE_TERMINATION, [candidate_1, candidate_3, candidate_small, candidate_large])
       \<in> set (data (holder_of [candidate_1, candidate_3, candidate_small, candidate_large]))
   \<and> sorted_wrt size_then_strain [candidate_1, candidate_3, candidate_small, candidate_large]
   \<and> sorted_wrt (\<lambda>u x. \<not> are_interfaces_duplicate x u)
         [candidate_1, candidate_3, candidate_small, candidate_large]
   \<and> consistent holder_two
   \<and> (\<exists>h'. add_data_entries remdups holder_two
              [candidate_large, candidate_small, candidate_1, candidate_2, candidate_3] True True
            = Inr h' \<and> consistent h')"
proof -
  let ?es = "[candidate_large, candidate_small, candidate_1, candidate_2, candidate_3]"
  let ?ys = "[candidate_1, candidate_3, candidate_small, candidate_large]"
  have m: "(INTERFACE_TERMINATION, ?ys) \<in> set (data (holder_of ?ys))"
    by (simp add: holder_of_def)
  have c: "consistent holder_two"
    by (simp add: consistent_def holder_two_def INTERFACE_TERMINATION_def
        INTERFACE_TERMINATION_2_def)
  from constructed_holder_sorted_and_deduplicated[of remdups ?es holder_two]
  obtain h' where h': "InterfaceDataHolder_init remdups ?es = Inr h'"
    "\<forall>(t, ys) \<in> set (data h'). sorted_wrt size_then_strain ys
        \<and> (\<forall>i j. i < j \<and> j < length ys \<longrightarrow> \<not> are_interfaces_duplicate (ys ! j) (ys ! i))"
    and add: "consistent holder_two \<longrightarrow>
       (\<exists>h'. add_data_entries remdups holder_two ?es True True = Inr h' \<and> consistent h'
       \<and> (\<forall>(t, ys) \<in> set (data h').
             sorted_wrt size_then_strain ys
             \<and> (\<forall>i j. i < j \<and> j < length ys \<longrightarrow> \<not> are_interfaces_duplicate (ys ! j) (ys ! i))))"
    by blast
  have eq: "h' = holder_of ?ys" using h'(1) init_example by simp
  have p: "sorted_wrt size_then_strain ?ys
        \<and> (\<forall>i j. i < j \<and> j < length ?ys \<longrightarrow> \<not> are_interfaces_duplicate (?ys ! j) (?ys ! i))"
    using h'(2) m unfolding eq by blast
  then have u: "sorted_wrt (\<lambda>u x. \<not> are_interfaces_duplicate x u) ?ys"
    unfolding sorted_wrt_iff_nth_less by blast
  show ?thesis using init_example m p u c add by blast
qed

text \<open>
  C3 as the specification states it, "sorted by the (strain, size) key order", fails:
  the holder constructed from \<open>candidate_large\<close> and \<open>candidate_small\<close> stores the
  candidate of greater strain first.
\<close>

theorem constructed_holder_not_strain_sorted_counterexample:
  "InterfaceDataHolder_init remdups [candidate_large, candidate_small]
     = Inr (holder_of [candidate_small, candidate_large])
   \<and> \<not> sorted_wrt strain_then_size [candidate_small, candidate_large]"
  by (simp add: example_defs InterfaceDataHolder_init_def add_data_entries_def
      add_interfaces_for_termination_def add_termination_def get_by_key
      set_interfaces_for_termination_def
      sort_interfaces_for_all_terminations_by_strain_and_size_def
      get_interfaces_for_termination_sorted_by_strain_and_size_def
      get_interfaces_for_termination_sorted_by_strain_def strain_key_def
      remove_duplicate_interfaces_def remove_duplicate_interfaces_for_termination_def
      get_interfaces_for_termination_sorted_by_size_def
      filter_duplicates_def are_interfaces_duplicate_def allclose_def strain_then_size_def)

subsection \<open>C4: retrieval by index and by key\<close>

text \<open>
  C4. For every holder, every selector and every position \<open>i\<close> of the list of
  terminations, retrieving by the index \<open>i\<close> gives the same result (the same list, or
  the same error) as retrieving by the termination stored at position \<open>i\<close>.
\<close>

theorem retrieval_by_index_equals_retrieval_by_key:
  assumes "0 \<le> i" and "i < int (length (terminations h))"
  shows "get_interfaces_for_termination h (Index i) sel
       = get_interfaces_for_termination h (Termination (terminations h ! nat i)) sel"
  using assms
  by (simp add: get_interfaces_for_termination_def get_interfaces_for_termination_or_its_index_def
      get_termination_def)

text \<open>The theorem at position 1 of \<open>holder_two\<close>, where both retrievals return a list.\<close>

theorem retrieval_by_index_equals_retrieval_by_key_witness:
  "(0::int) \<le> 1 \<and> 1 < int (length (terminations holder_two))
   \<and> get_interfaces_for_termination holder_two (Index 1) None
       = get_interfaces_for_termination holder_two
           (Termination (terminations holder_two ! nat 1)) None
   \<and> get_interfaces_for_termination holder_two (Index 1) None = Inr [candidate_other]"
proof -
  have a: "(0::int) \<le> 1" by simp
  have b: "1 < int (length (terminations holder_two))" by (simp add: holder_two_def)
  have v: "get_interfaces_for_termination holder_two (Index 1) None = Inr [candidate_other]"
    by (simp add: holder_two_def get_interfaces_for_termination_def
        get_interfaces_for_termination_or_its_index_def get_termination_def
        filter_by_slice_or_index_or_indices_def INTERFACE_TERMINATION_def
        INTERFACE_TERMINATION_2_def)
  show ?thesis
    using a b v retrieval_by_index_equals_retrieval_by_key[OF a b, of None] by blast
qed

subsection \<open>C5: failed retrievals\<close>

text \<open>
  C5. An index outside the range of the list of terminations (at or beyond its length,
  or below minus its length: Python counts negative indices from the end) makes the
  retrieval fail with IndexError; a termination that is not a key of the holder makes
  it fail with KeyError. In both cases the holder is the one the call received.
\<close>

theorem retrieval_lookup_errors:
  "(i < - int (length (terminations h)) \<or> int (length (terminations h)) \<le> i
      \<longrightarrow> get_interfaces_for_termination_or_its_index_call h (Index i) = (Inl IndexError, h))
   \<and> (map_of (data h) k = None
      \<longrightarrow> get_interfaces_for_termination_or_its_index_call h (Termination k) = (Inl KeyError, h))"
  by (auto simp add: get_interfaces_for_termination_or_its_index_call_def
      get_interfaces_for_termination_or_its_index_def get_termination_def Let_def)

text \<open>
  The theorem at \<open>holder_two\<close>, which has two terminations: index 2 is out of range,
  and the pair of two empty labels is not a key.
\<close>

theorem retrieval_lookup_errors_witness:
  "int (length (terminations holder_two)) \<le> 2
   \<and> get_interfaces_for_termination_or_its_index_call holder_two (Index 2)
       = (Inl IndexError, holder_two)
   \<and> map_of (data holder_two) ('''', '''') = None
   \<and> get_interfaces_for_termination_or_its_index_call holder_two (Termination ('''', ''''))
       = (Inl KeyError, holder_two)"
proof -
  have a: "int (length (terminations holder_two)) \<le> 2" by (simp add: holder_two_def)
  have b: "map_of (data holder_two) ('''', '''') = None"
    by (simp add: holder_two_def INTERFACE_TERMINATION_def INTERFACE_TERMINATION_2_def)
  show ?thesis using a b retrieval_lookup_errors[of 2 holder_two "('''', '''')"] by blast
qed

subsection \<open>C6: dispatch of defect builders\<close>

text \<open>
  C6. The claim says that for a configuration whose defect type has no builder in the
  mapping, \<open>create_defect\<close> returns the unmodified material. The code subscripts the
  mapping with the defect type first, and the subscript raises KeyError for a type
  that is not a key: the fallback \<open>if builder else configuration.crystal\<close> that the
  code writes after it is never reached for such a configuration. Whatever the
  builders' methods and truth values, the material and the parameters:
\<close>

theorem create_defect_unmatched_type_raises:
  "create_defect get_material truthy \<lparr>crystal = m, defect_type = OtherDefectType name\<rparr>
     builder_parameters = Inl KeyError"
  by (simp add: create_defect_def DEFECT_BUILDER_FACTORY_def)

text \<open>
  The other half of the claim holds: for a matching type the result is that builder's
  \<open>get_material(configuration)\<close>, the builder object being true as Python objects are.
\<close>

lemma create_defect_dispatch:
  "defect_type configuration = VACANCY \<Longrightarrow> truthy (VacancyBuilder bp) \<Longrightarrow>
     create_defect get_material truthy configuration bp
       = Inr (get_material (VacancyBuilder bp) configuration)"
  "defect_type configuration = SUBSTITUTION \<Longrightarrow> truthy (SubstitutionBuilder bp) \<Longrightarrow>
     create_defect get_material truthy configuration bp
       = Inr (get_material (SubstitutionBuilder bp) configuration)"
  "defect_type configuration = INTERSTITIAL \<Longrightarrow> truthy (InterstitialBuilder bp) \<Longrightarrow>
     create_defect get_material truthy configuration bp
       = Inr (get_material (InterstitialBuilder bp) configuration)"
  by (simp_all add: create_defect_def DEFECT_BUILDER_FACTORY_def)

subsection \<open>C8: the slab of a termination\<close>

text \<open>
  C8. If some generated slab structure has the termination label asked for,
  \<open>get_slab_with_termination\<close> returns the material built, with the xy supercell
  applied, from the first such structure; if none has, it returns \<open>None\<close>. No branch
  of the method raises.
\<close>

theorem get_slab_with_termination_first_match:
  "((\<exists>s \<in> set (slab_structures self). label_termination s = termination) \<longrightarrow>
      (\<exists>pre s post. slab_structures self = pre @ s # post
         \<and> (\<forall>u \<in> set pre. label_termination u \<noteq> termination) \<and> label_termination s = termination
         \<and> get_slab_with_termination label_termination from_pymatgen Material create_supercell
             self termination
           = Some (create_supercell (Material (from_pymatgen s)) (xy_supercell_matrix self))))
   \<and> ((\<forall>s \<in> set (slab_structures self). label_termination s \<noteq> termination) \<longrightarrow>
        get_slab_with_termination label_termination from_pymatgen Material create_supercell
          self termination = None)"
proof (intro conjI impI)
  assume "\<exists>s \<in> set (slab_structures self). label_termination s = termination"
  then obtain pre s post where sp: "slab_structures self = pre @ s # post"
    "label_termination s = termination" "\<forall>u \<in> set pre. label_termination u \<noteq> termination"
    using split_list_first_prop[of "slab_structures self" "\<lambda>s. label_termination s = termination"]
    by blast
  have "find (\<lambda>s. label_termination s = termination) (pre @ s # post) = Some s"
    using sp(2,3) by (induction pre) auto
  then show "\<exists>pre s post. slab_structures self = pre @ s # post
         \<and> (\<forall>u \<in> set pre. label_termination u \<noteq> termination) \<and> label_termination s = termination
         \<and> get_slab_with_termination label_termination from_pymatgen Material create_supercell
             self termination
           = Some (create_supercell (Material (from_pymatgen s)) (xy_supercell_matrix self))"
    using sp by (auto simp add: get_slab_with_termination_def get_slab_loop_find)
next
  assume "\<forall>s \<in> set (slab_structures self). label_termination s \<noteq> termination"
  then have "find (\<lambda>s. label_termination s = termination) (slab_structures self) = None"
    by (simp add: find_None_iff)
  then show "get_slab_with_termination label_termination from_pymatgen Material create_supercell
          self termination = None"
    by (simp add: get_slab_with_termination_def get_slab_loop_find)
qed

text \<open>
  The theorem at \<open>example_generator\<close>, the label of a structure being its first
  component and the material built from a structure keeping its number: the label of
  the structures 1 and 2 gives the material of structure 1, an unknown label gives
  \<open>None\<close>.
\<close>

theorem get_slab_with_termination_first_match_witness:
  "(\<exists>s \<in> set (slab_structures example_generator). fst s = ''Si_R-3m_2'')
   \<and> (\<exists>pre s post. slab_structures example_generator = pre @ s # post
         \<and> (\<forall>u \<in> set pre. fst u \<noteq> ''Si_R-3m_2'') \<and> fst s = ''Si_R-3m_2''
         \<and> get_slab_with_termination fst snd Suc (+) example_generator ''Si_R-3m_2''
           = Some (Suc (snd s) + xy_supercell_matrix example_generator))
   \<and> get_slab_with_termination fst snd Suc (+) example_generator ''Si_R-3m_2'' = Some 4
   \<and> ''Cu_Fm-3m_1'' \<notin> fst ` set (slab_structures example_generator)
   \<and> get_slab_with_termination fst snd Suc (+) example_generator ''Cu_Fm-3m_1'' = None"
proof -
  have a: "\<exists>s \<in> set (slab_structures example_generator). fst s = ''Si_R-3m_2''"
    by (simp add: example_generator_def)
  have b: "\<forall>s \<in> set (slab_structures example_generator). fst s \<noteq> ''Cu_Fm-3m_1''"
    by (simp add: example_generator_def)
  have b': "''Cu_Fm-3m_1'' \<notin> fst ` set (slab_structures example_generator)"
    using b by auto
  have v: "get_slab_with_termination fst snd Suc (+) example_generator ''Si_R-3m_2'' = Some 4"
    by (simp add: example_generator_def get_slab_with_termination_def)
  show ?thesis
    using a b b' v
      get_slab_with_termination_first_match[of example_generator fst "''Si_R-3m_2''" snd Suc "(+)"]
      get_slab_with_termination_first_match[of example_generator fst "''Cu_Fm-3m_1''" snd Suc "(+)"]
    by blast
qed

subsection \<open>C9: all interfaces\<close>

text \<open>
  C9. \<open>get_all_interfaces\<close> returns the concatenation of the groups of the dict,
  in insertion order, when there is at least one group, and raises when there is none:
  the reduction has no initial value. For a holder whose terminations are the keys of
  its dict (every holder the constructor and \<open>add_data_entries\<close> produce) that is:
  the concatenation when there is at least one termination, an error when there is
  none. The holder constructed from the empty list of entries has no termination, so
  \<open>get_all_interfaces\<close> raises on it.
\<close>

theorem get_all_interfaces_concat_or_error:
  fixes h :: "'a Interface_scheme InterfaceDataHolder"
  shows "(data h \<noteq> [] \<longrightarrow> get_all_interfaces h = Inr (concat (map snd (data h))))
   \<and> (data h = [] \<longrightarrow> get_all_interfaces h = Inl TypeError)
   \<and> (map fst (data h) = terminations h \<longrightarrow>
      (terminations h \<noteq> [] \<longrightarrow> get_all_interfaces h = Inr (concat (map snd (data h))))
      \<and> (terminations h = [] \<longrightarrow> get_all_interfaces h = Inl TypeError))
   \<and> (unique [] = [] \<longrightarrow>
      (\<exists>h0. InterfaceDataHolder_init unique ([] :: 'a Interface_scheme list) = Inr h0
          \<and> terminations h0 = [] \<and> get_all_interfaces h0 = Inl TypeError))"
proof (intro conjI impI)
  assume "data h \<noteq> []"
  then show "get_all_interfaces h = Inr (concat (map snd (data h)))"
    by (cases "data h") (auto simp add: get_all_interfaces_def foldl_append_concat)
next
  assume "data h = []"
  then show "get_all_interfaces h = Inl TypeError"
    by (simp add: get_all_interfaces_def)
next
  assume "map fst (data h) = terminations h" and "terminations h \<noteq> []"
  then show "get_all_interfaces h = Inr (concat (map snd (data h)))"
    by (cases "data h") (auto simp add: get_all_interfaces_def foldl_append_concat)
next
  assume "map fst (data h) = terminations h" and "terminations h = []"
  then show "get_all_interfaces h = Inl TypeError"
    by (simp add: get_all_interfaces_def)
next
  assume "unique [] = []"
  then show "\<exists>h0. InterfaceDataHolder_init unique ([] :: 'a Interface_scheme list) = Inr h0
          \<and> terminations h0 = [] \<and> get_all_interfaces h0 = Inl TypeError"
    by (simp add: InterfaceDataHolder_init_def add_data_entries_def
        sort_interfaces_for_all_terminations_by_strain_and_size_def
        remove_duplicate_interfaces_def get_all_interfaces_def)
qed

text \<open>
  The theorem at \<open>holder_two\<close>, at \<open>empty_holder\<close>, and at the enumeration
  \<open>remdups\<close>.
\<close>

theorem get_all_interfaces_concat_or_error_witness:
  "map fst (data holder_two) = terminations holder_two \<and> terminations holder_two \<noteq> []
   \<and> get_all_interfaces holder_two = Inr (concat (map snd (data holder_two)))
   \<and> concat (map snd (data holder_two)) = [candidate_large, candidate_small, candidate_other]
   \<and> map fst (data empty_holder) = terminations empty_holder \<and> terminations empty_holder = []
   \<and> get_all_interfaces empty_holder = Inl TypeError
   \<and> remdups ([] :: TerminationType list) = []
   \<and> (\<exists>h0. InterfaceDataHolder_init remdups ([] :: Interface list) = Inr h0
          \<and> terminations h0 = [] \<and> get_all_interfaces h0 = Inl TypeError)"
proof -
  have a: "map fst (data holder_two) = terminations holder_two" "terminations holder_two \<noteq> []"
    "concat (map snd (data holder_two)) = [candidate_large, candidate_small, candidate_other]"
    by (simp_all add: holder_two_def)
  have b: "map fst (data empty_holder) = terminations empty_holder"
    "terminations empty_holder = []" "remdups ([] :: TerminationType list) = []"
    by (simp_all add: empty_holder_def)
  have t2: "get_all_interfaces holder_two = Inr (concat (map snd (data holder_two)))"
    using a get_all_interfaces_concat_or_error[of holder_two remdups] by blast
  have t0: "get_all_interfaces empty_holder = Inl TypeError"
    using b get_all_interfaces_concat_or_error[of empty_holder remdups] by blast
  have ti: "\<exists>h0. InterfaceDataHolder_init remdups ([] :: Interface list) = Inr h0
          \<and> terminations h0 = [] \<and> get_all_interfaces h0 = Inl TypeError"
    using b get_all_interfaces_concat_or_error[of empty_holder remdups] by blast
  show ?thesis using a b t2 t0 ti by (intro conjI)
qed

subsection \<open>C10: filtering by label\<close>

text \<open>
  C10, as the code has it. \<open>filter_by_label\<close> returns the address it was given; in the
  new heap only the material at that address has changed, and of it only the
  coordinates and the elements of the basis: each is cut down to the entries at the
  positions at which the list of labels has the label, and the list of labels is as
  before. Where the material has as many labels as elements (as coordinates) and the
  filter removes an element (a coordinate), the list of labels is afterwards longer
  than the list of elements (of coordinates).
\<close>

theorem filter_by_label_frame:
  "snd (filter_by_label heap a l) = a
   \<and> (\<forall>b. b \<noteq> a \<longrightarrow> fst (filter_by_label heap a l) b = heap b)
   \<and> Material.more (fst (filter_by_label heap a l) a) = Material.more (heap a)
   \<and> labels (basis (fst (filter_by_label heap a l) a)) = labels (basis (heap a))
   \<and> coordinates (basis (fst (filter_by_label heap a l) a))
       = nths (coordinates (basis (heap a)))
           {i. i < length (labels (basis (heap a))) \<and> snd (labels (basis (heap a)) ! i) = l}
   \<and> elements (basis (fst (filter_by_label heap a l) a))
       = nths (elements (basis (heap a)))
           {i. i < length (labels (basis (heap a))) \<and> snd (labels (basis (heap a)) ! i) = l}
   \<and> (length (labels (basis (heap a))) = length (elements (basis (heap a)))
        \<and> length (elements (basis (fst (filter_by_label heap a l) a)))
            < length (elements (basis (heap a)))
      \<longrightarrow> length (elements (basis (fst (filter_by_label heap a l) a)))
            < length (labels (basis (fst (filter_by_label heap a l) a))))
   \<and> (length (labels (basis (heap a))) = length (coordinates (basis (heap a)))
        \<and> length (coordinates (basis (fst (filter_by_label heap a l) a)))
            < length (coordinates (basis (heap a)))
      \<longrightarrow> length (coordinates (basis (fst (filter_by_label heap a l) a)))
            < length (labels (basis (fst (filter_by_label heap a l) a))))"
proof -
  let ?h = "fst (filter_by_label heap a l)"
  have r: "snd (filter_by_label heap a l) = a"
    by (simp add: filter_by_label_def Let_def)
  have o: "\<forall>b. b \<noteq> a \<longrightarrow> ?h b = heap b"
    by (simp add: filter_by_label_def Let_def)
  have m: "Material.more (?h a) = Material.more (heap a)"
    by (simp add: filter_by_label_def Let_def)
  have ls: "labels (basis (?h a)) = labels (basis (heap a))"
    by (simp add: filter_by_label_def Let_def)
  have cs: "coordinates (basis (?h a))
       = nths (coordinates (basis (heap a)))
           {i. i < length (labels (basis (heap a))) \<and> snd (labels (basis (heap a)) ! i) = l}"
    by (simp add: filter_by_label_def Let_def select_by_indices_nths matching_indices_set
         del: set_map)
  have es: "elements (basis (?h a))
       = nths (elements (basis (heap a)))
           {i. i < length (labels (basis (heap a))) \<and> snd (labels (basis (heap a)) ! i) = l}"
    by (simp add: filter_by_label_def Let_def select_by_indices_nths matching_indices_set
         del: set_map)
  have le: "length (labels (basis (heap a))) = length (elements (basis (heap a)))
        \<and> length (elements (basis (?h a))) < length (elements (basis (heap a)))
      \<longrightarrow> length (elements (basis (?h a))) < length (labels (basis (?h a)))"
    unfolding ls by simp
  have lc: "length (labels (basis (heap a))) = length (coordinates (basis (heap a)))
        \<and> length (coordinates (basis (?h a))) < length (coordinates (basis (heap a)))
      \<longrightarrow> length (coordinates (basis (?h a))) < length (labels (basis (?h a)))"
    unfolding ls by simp
  show ?thesis using r o m ls cs es le lc by (intro conjI)
qed

text \<open>
  The theorem at \<open>tagged_heap\<close>, address 0 and label 1: the material at address 1 is
  untouched, the two labels stay, and of the two elements Si stays.
\<close>

theorem filter_by_label_frame_witness:
  "snd (filter_by_label tagged_heap 0 1) = 0
   \<and> (1::nat) \<noteq> 0 \<and> fst (filter_by_label tagged_heap 0 1) 1 = tagged_heap 1
   \<and> length (labels (basis (tagged_heap 0))) = length (elements (basis (tagged_heap 0)))
   \<and> length (elements (basis (fst (filter_by_label tagged_heap 0 1) 0)))
       < length (elements (basis (tagged_heap 0)))
   \<and> length (elements (basis (fst (filter_by_label tagged_heap 0 1) 0)))
       < length (labels (basis (fst (filter_by_label tagged_heap 0 1) 0)))
   \<and> elements (basis (fst (filter_by_label tagged_heap 0 1) 0)) = [(0, ''Si'')]
   \<and> labels (basis (fst (filter_by_label tagged_heap 0 1) 0)) = [(0, 1), (1, 2)]"
proof -
  have e: "elements (basis (fst (filter_by_label tagged_heap 0 1) 0)) = [(0, ''Si'')]"
    by (simp add: filter_by_label_def Let_def select_by_indices_def tagged_heap_def
        tagged_material_def del: set_filter set_map)
  have p: "(1::nat) \<noteq> 0"
    "length (labels (basis (tagged_heap 0))) = length (elements (basis (tagged_heap 0)))"
    "labels (basis (tagged_heap 0)) = [(0, 1), (1, 2)]"
    "length (elements (basis (tagged_heap 0))) = 2"
    by (simp_all add: tagged_heap_def tagged_material_def)
  have q: "length (elements (basis (fst (filter_by_label tagged_heap 0 1) 0)))
       < length (elements (basis (tagged_heap 0)))"
  proof -
    have "length [(0::nat, ''Si'')] < (2::nat)" by simp
    then show ?thesis by (simp only: e p(4))
  qed
  note t = filter_by_label_frame[of tagged_heap 0 1]
  have r: "snd (filter_by_label tagged_heap 0 1) = 0"
    using t by (rule conjunct1)
  have o: "fst (filter_by_label tagged_heap 0 1) 1 = tagged_heap 1"
    using t[THEN conjunct2, THEN conjunct1] p(1) by blast
  have ls: "labels (basis (fst (filter_by_label tagged_heap 0 1) 0)) = [(0, 1), (1, 2)]"
    using t[THEN conjunct2, THEN conjunct2, THEN conjunct2, THEN conjunct1] p(3) by simp
  have im: "length (elements (basis (fst (filter_by_label tagged_heap 0 1) 0)))
       < length (labels (basis (fst (filter_by_label tagged_heap 0 1) 0)))"
    using t[THEN conjunct2, THEN conjunct2, THEN conjunct2, THEN conjunct2, THEN conjunct2,
            THEN conjunct2, THEN conjunct1] p(2) q by blast
  show ?thesis using r p(1) o p(2) q im e ls by (intro conjI)
qed

text \<open>
  C10 as the specification states it, "whenever the filter removes at least one atom,
  the labels list is longer than the filtered elements and coordinates lists", fails
  for a material with fewer labels than atoms. \<open>section_material\<close> has two atoms and,
  like the bases that \<open>test_tools_build.py\<close> expects, an empty list of labels: the filter removes
  both atoms, and the list of labels, empty as before, is not longer than the empty
  list of elements.
\<close>

theorem filter_by_label_unlabelled_counterexample:
  "length (elements (basis (fst (filter_by_label unlabelled_heap 0 1) 0)))
     < length (elements (basis (unlabelled_heap 0)))
   \<and> \<not> length (elements (basis (fst (filter_by_label unlabelled_heap 0 1) 0)))
        < length (labels (basis (fst (filter_by_label unlabelled_heap 0 1) 0)))
   \<and> \<not> length (coordinates (basis (fst (filter_by_label unlabelled_heap 0 1) 0)))
        < length (labels (basis (fst (filter_by_label unlabelled_heap 0 1) 0)))"
  by (simp add: filter_by_label_def Let_def select_by_indices_def unlabelled_heap_def
      section_material_def)

end
